theory Spec2Isabelle
  imports Complex_Main "HOL-Library.AList" "HOL-Library.Sublist" "HOL-Library.Product_Lexorder"
begin

section \<open>Text: characters, classes and the string methods the script calls\<close>

text \<open>
  A Python \<^verbatim>\<open>str\<close> is modelled as a \<^typ>\<open>string\<close>; a \<^typ>\<open>char\<close> stands for the code
  point of the same number, so the model covers text of code points below 256 (Latin-1).
  The classes below are those of Python's \<^verbatim>\<open>re\<close> module for \<^verbatim>\<open>str\<close> patterns and of
  \<^verbatim>\<open>str.strip\<close>, \<^verbatim>\<open>str.split\<close> and \<^verbatim>\<open>str.upper\<close>, restricted to these code points.
\<close>

definition is_space :: "char \<Rightarrow> bool" where
  \<comment> \<open>\<^verbatim>\<open>\s\<close> and \<^verbatim>\<open>str.isspace\<close>: tab, LF, VT, FF, CR, FS, GS, RS, US, the blank, NEL
      (U+0085) and the no-break space (U+00A0)\<close>
  "is_space c \<longleftrightarrow>
     (let n = (of_char c :: int) in
        (9 \<le> n \<and> n \<le> 13) \<or> (28 \<le> n \<and> n \<le> 32) \<or> n = 133 \<or> n = 160)"

definition is_digit :: "char \<Rightarrow> bool" where
  \<comment> \<open>\<^verbatim>\<open>\d\<close>: the decimal digits; below 256 these are 0 to 9 only (the superscripts and
      fractions of Latin-1 are no decimal digits)\<close>
  "is_digit c \<longleftrightarrow> (let n = (of_char c :: int) in 48 \<le> n \<and> n \<le> 57)"

definition is_digdot :: "char \<Rightarrow> bool" where
  \<comment> \<open>the class \<^verbatim>\<open>[\d.]\<close>\<close>
  "is_digdot c \<longleftrightarrow> is_digit c \<or> c = CHR ''.''"

definition is_word :: "char \<Rightarrow> bool" where
  \<comment> \<open>\<^verbatim>\<open>\w\<close>: the underscore and what \<^verbatim>\<open>str.isalnum\<close> accepts; below 256 these are the
      ASCII letters and digits, the ordinal indicators (U+00AA, U+00BA), the micro sign
      (U+00B5), the superscripts 1, 2, 3 (U+00B9, U+00B2, U+00B3), the fractions
      (U+00BC to U+00BE) and the letters U+00C0 to U+00FF but for the two operators
      U+00D7 and U+00F7\<close>
  "is_word c \<longleftrightarrow>
     (let n = (of_char c :: int) in
        (48 \<le> n \<and> n \<le> 57) \<or> (65 \<le> n \<and> n \<le> 90) \<or> (97 \<le> n \<and> n \<le> 122) \<or> n = 95 \<or>
        n = 170 \<or> n = 178 \<or> n = 179 \<or> n = 181 \<or> n = 185 \<or> n = 186 \<or>
        (188 \<le> n \<and> n \<le> 190) \<or> (192 \<le> n \<and> n \<le> 214) \<or> (216 \<le> n \<and> n \<le> 246) \<or>
        (248 \<le> n \<and> n \<le> 255))"

definition upper_char :: "char \<Rightarrow> string" where
  \<comment> \<open>the upper case of one character: the sharp s (U+00DF) becomes SS; the capitals of the
      micro sign (U+00B5) and of y with diaeresis (U+00FF) lie beyond U+00FF and no other
      character has them, so here each of the two stands for its own capital\<close>
  "upper_char c =
     (let n = (of_char c :: int) in
        if 97 \<le> n \<and> n \<le> 122 then [char_of (n - 32)]
        else if n = 223 then ''SS''
        else if 224 \<le> n \<and> n \<le> 254 \<and> n \<noteq> 247 then [char_of (n - 32)]
        else [c])"

definition upper :: "string \<Rightarrow> string" where
  \<comment> \<open>\<^verbatim>\<open>s.upper()\<close>\<close>
  "upper s = concat (map upper_char s)"

definition ascii_lower :: "string \<Rightarrow> string" where
  \<comment> \<open>the lower case of the ASCII letters, as \<^verbatim>\<open>float()\<close> compares its special words\<close>
  "ascii_lower s =
     map (\<lambda>c. let n = (of_char c :: int) in if 65 \<le> n \<and> n \<le> 90 then char_of (n + 32) else c) s"

definition strip :: "string \<Rightarrow> string" where
  \<comment> \<open>\<^verbatim>\<open>str.strip()\<close>: white space removed at both ends\<close>
  "strip s = rev (dropWhile is_space (rev (dropWhile is_space s)))"

fun startswith :: "string \<Rightarrow> string \<Rightarrow> bool" where
  \<comment> \<open>\<^verbatim>\<open>s.startswith(p)\<close>, the text first and the prefix second\<close>
  "startswith s [] = True"
| "startswith [] (p # ps) = False"
| "startswith (c # s) (p # ps) = (c = p \<and> startswith s ps)"

fun contains :: "string \<Rightarrow> string \<Rightarrow> bool" where
  \<comment> \<open>\<^verbatim>\<open>p in s\<close> for two strings\<close>
  "contains [] p = (p = [])"
| "contains (c # s) p = (startswith (c # s) p \<or> contains s p)"

fun split_on :: "char \<Rightarrow> string \<Rightarrow> string list" where
  \<comment> \<open>\<^verbatim>\<open>s.split(sep)\<close> for a separator of one character: never an empty list\<close>
  "split_on sep [] = [[]]"
| "split_on sep (c # s) =
     (if c = sep then [] # split_on sep s
      else (case split_on sep s of [] \<Rightarrow> [[c]] | w # ws \<Rightarrow> (c # w) # ws))"

function split_ws :: "string \<Rightarrow> string list" where
  \<comment> \<open>\<^verbatim>\<open>s.split()\<close>: the maximal runs of characters that are not white space\<close>
  "split_ws s =
     (let t = dropWhile is_space s in
        if t = [] then []
        else takeWhile (\<lambda>c. \<not> is_space c) t # split_ws (dropWhile (\<lambda>c. \<not> is_space c) t))"
  by pat_completeness auto
termination
proof (relation "measure length")
  show "wf (measure length)" by simp
next
  fix s t :: string
  assume t: "t = dropWhile is_space s" and ne: "t \<noteq> []"
  have "length (dropWhile (\<lambda>c. \<not> is_space c) t) < length t"
  proof (cases t)
    case Nil
    with ne show ?thesis by simp
  next
    case (Cons a u)
    have "\<not> is_space a"
      using hd_dropWhile [of is_space s] t Cons by (metis list.sel(1) list.distinct(1))
    then have "dropWhile (\<lambda>c. \<not> is_space c) t = dropWhile (\<lambda>c. \<not> is_space c) u"
      using Cons by simp
    then show ?thesis
      using Cons length_dropWhile_le [of "\<lambda>c. \<not> is_space c" u] by simp
  qed
  also have "length t \<le> length s"
    using t length_dropWhile_le [of is_space s] by simp
  finally show "(dropWhile (\<lambda>c. \<not> is_space c) t, s) \<in> measure length" by simp
qed

declare split_ws.simps [simp del]

fun join :: "string \<Rightarrow> string list \<Rightarrow> string" where
  \<comment> \<open>\<^verbatim>\<open>sep.join(xs)\<close>\<close>
  "join sep [] = []"
| "join sep [x] = x"
| "join sep (x # y # ys) = x @ sep @ join sep (y # ys)"

section \<open>Numbers: \<^verbatim>\<open>int()\<close>, \<^verbatim>\<open>str()\<close>, \<^verbatim>\<open>float()\<close> and the format \<^verbatim>\<open>.2f\<close>\<close>

definition digit_val :: "char \<Rightarrow> int" where
  "digit_val c = of_char c - 48"

definition digit_char :: "int \<Rightarrow> char" where
  "digit_char d = char_of (48 + d)"

definition digits_value :: "string \<Rightarrow> int" where
  \<comment> \<open>the decimal value of a string of digits, leading zeros allowed\<close>
  "digits_value s = foldl (\<lambda>n c. 10 * n + digit_val c) 0 s"

definition int_max_str_digits :: nat where
  \<comment> \<open>CPython 3.11 and later (and the security releases of 3.7 to 3.10): the default of
      \<^verbatim>\<open>sys.get_int_max_str_digits()\<close>\<close>
  "int_max_str_digits = 4300"

definition py_int :: "string \<Rightarrow> int option" where
  \<comment> \<open>\<^verbatim>\<open>int(s)\<close> on a group matched by \<^verbatim>\<open>\d+\<close>; \<open>None\<close> stands for the \<^verbatim>\<open>ValueError\<close> that
      it raises on more digits than the limit\<close>
  "py_int s = (if int_max_str_digits < length s then None else Some (digits_value s))"

function digits :: "int \<Rightarrow> string" where
  \<comment> \<open>the decimal digits of an integer that is not negative\<close>
  "digits n = (if n < 10 then [digit_char n] else digits (n div 10) @ [digit_char (n mod 10)])"
  by pat_completeness auto
termination
  by (relation "measure nat") auto

declare digits.simps [simp del]

definition str_int :: "int \<Rightarrow> string" where
  \<comment> \<open>\<^verbatim>\<open>str(n)\<close> and \<^verbatim>\<open>f"{n}"\<close> for an integer\<close>
  "str_int n = (if n < 0 then ''-'' @ digits (- n) else digits n)"

subsection \<open>Floats\<close>

text \<open>
  A Python \<^verbatim>\<open>float\<close> is an IEEE 754 double: a finite value, an infinity or a NaN. A
  finite double is modelled by its exact value, a rational; \<open>to_double\<close> rounds a rational
  to the nearest double, ties to even, as \<^verbatim>\<open>float()\<close> does with a decimal text and as
  the arithmetic does with an exact result. The sign of zero is not modelled: no value
  that the script formats can be a negative zero.
\<close>

datatype pyfloat = Fin rat | PInf | NInf | NaN

definition round_half_even :: "rat \<Rightarrow> int" where
  "round_half_even y =
     (let fl = \<lfloor>y\<rfloor>; fr = y - of_int fl in
        if fr < 1 / 2 then fl
        else if 1 / 2 < fr then fl + 1
        else if even fl then fl else fl + 1)"

function bitlen :: "int \<Rightarrow> int" where
  \<comment> \<open>the number of binary digits of a positive integer: \<open>2 ^ (bitlen n - 1) \<le> n < 2 ^ bitlen n\<close>\<close>
  "bitlen n = (if n \<le> 0 then 0 else 1 + bitlen (n div 2))"
  by pat_completeness auto
termination
  by (relation "measure nat") auto

declare bitlen.simps [simp del]

definition pow2 :: "int \<Rightarrow> rat" where
  "pow2 k = (if 0 \<le> k then 2 ^ nat k else 1 / 2 ^ nat (- k))"

definition signed_inf :: "rat \<Rightarrow> pyfloat" where
  "signed_inf x = (if x < 0 then NInf else PInf)"

definition to_double :: "rat \<Rightarrow> pyfloat" where
  \<comment> \<open>With \<open>a = p / q\<close> the absolute value and \<open>d = bitlen p - bitlen q\<close>, \<open>a\<close> lies
      between \<open>2 ^ (d - 1)\<close> and \<open>2 ^ (d + 1)\<close>, so its binary exponent \<open>e\<close> is \<open>d\<close> or
      \<open>d - 1\<close>. A double has 53 significant bits and no exponent below -1022: \<open>a\<close> is
      rounded to a multiple of \<open>2 ^ (max e (-1022) - 52)\<close>. A result of \<open>2 ^ 1024\<close> or
      more is an infinity. The first two tests give what the general case would, without
      computing with very large or very small powers.\<close>
  "to_double x =
     (if x = 0 then Fin 0
      else
        let a = \<bar>x\<bar>; (p, q) = quotient_of a; d = bitlen p - bitlen q in
          if 1025 \<le> d then signed_inf x
          else if d \<le> - 1076 then Fin 0
          else
            let e = (if pow2 d \<le> a then d else d - 1);
                ex = max e (- 1022) - 52;
                m = round_half_even (a / pow2 ex)
            in if 1024 \<le> e \<or> (e = 1023 \<and> m = 9007199254740992) then signed_inf x
               else Fin (sgn x * of_int m * pow2 ex))"

text \<open>
  \<open>decimal_value\<close> reads the decimal texts that \<^verbatim>\<open>float()\<close> accepts, exactly: white
  space at both ends, a sign, digits with single underscores between them, one point, an
  exponent. \<open>py_float\<close> is \<^verbatim>\<open>float(s)\<close>: the special words in any case, or the double
  nearest to the decimal value. \<open>None\<close> stands for the \<^verbatim>\<open>ValueError\<close> it raises.
\<close>

fun digitpart :: "string \<Rightarrow> string option" where
  \<comment> \<open>\<^verbatim>\<open>digit (["_"] digit)*\<close>: the digits, without the underscores\<close>
  "digitpart [] = None"
| "digitpart [c] = (if is_digit c then Some [c] else None)"
| "digitpart (c # d # s) =
     (if \<not> is_digit c then None
      else if d = CHR ''_'' then map_option (Cons c) (digitpart s)
      else map_option (Cons c) (digitpart (d # s)))"

definition number :: "string \<Rightarrow> rat option" where
  \<comment> \<open>\<^verbatim>\<open>[digitpart] "." digitpart | digitpart ["."]\<close>\<close>
  "number s =
     (let ip = takeWhile (\<lambda>c. c \<noteq> CHR ''.'') s; r = dropWhile (\<lambda>c. c \<noteq> CHR ''.'') s in
        case r of
          [] \<Rightarrow> map_option (\<lambda>a. of_int (digits_value a)) (digitpart ip)
        | _ # fp \<Rightarrow>
            (if fp = [] then map_option (\<lambda>a. of_int (digits_value a)) (digitpart ip)
             else case digitpart fp of
                 None \<Rightarrow> None
               | Some b \<Rightarrow>
                   (if ip = [] then Some (of_int (digits_value b) / 10 ^ length b)
                    else case digitpart ip of
                        None \<Rightarrow> None
                      | Some a \<Rightarrow>
                          Some (of_int (digits_value a) + of_int (digits_value b) / 10 ^ length b))))"

definition exponent :: "string \<Rightarrow> int option" where
  \<comment> \<open>what follows the letter e: \<^verbatim>\<open>[sign] digitpart\<close>\<close>
  "exponent s =
     (case s of
        [] \<Rightarrow> None
      | c # r \<Rightarrow>
          if c = CHR ''-'' then map_option (\<lambda>a. - digits_value a) (digitpart r)
          else if c = CHR ''+'' then map_option digits_value (digitpart r)
          else map_option digits_value (digitpart s))"

definition floatnumber :: "string \<Rightarrow> rat option" where
  \<comment> \<open>\<^verbatim>\<open>number [exponent]\<close>\<close>
  "floatnumber s =
     (let not_e = (\<lambda>c. c \<noteq> CHR ''e'' \<and> c \<noteq> CHR ''E'');
          m = takeWhile not_e s; r = dropWhile not_e s in
        case number m of
          None \<Rightarrow> None
        | Some v \<Rightarrow>
            (case r of
               [] \<Rightarrow> Some v
             | _ # ex \<Rightarrow>
                 (case exponent ex of
                    None \<Rightarrow> None
                  | Some k \<Rightarrow> Some (if 0 \<le> k then v * 10 ^ nat k else v / 10 ^ nat (- k)))))"

definition decimal_value :: "string \<Rightarrow> rat option" where
  \<comment> \<open>the exact value of a decimal text, signed\<close>
  "decimal_value s =
     (case strip s of
        [] \<Rightarrow> None
      | c # r \<Rightarrow>
          if c = CHR ''-'' then map_option uminus (floatnumber r)
          else if c = CHR ''+'' then floatnumber r
          else floatnumber (c # r))"

definition special_value :: "string \<Rightarrow> pyfloat option" where
  \<comment> \<open>\<^verbatim>\<open>[sign] ("inf" | "infinity" | "nan")\<close>, in any case\<close>
  "special_value s =
     (let t = ascii_lower (strip s);
          neg = startswith t ''-'';
          w = (if startswith t ''-'' \<or> startswith t ''+'' then drop 1 t else t)
      in if w = ''inf'' \<or> w = ''infinity'' then Some (if neg then NInf else PInf)
         else if w = ''nan'' then Some NaN
         else None)"

definition py_float :: "string \<Rightarrow> pyfloat option" where
  \<comment> \<open>\<^verbatim>\<open>float(s)\<close>\<close>
  "py_float s =
     (case special_value s of
        Some v \<Rightarrow> Some v
      | None \<Rightarrow> map_option to_double (decimal_value s))"

fun py_sub :: "pyfloat \<Rightarrow> pyfloat \<Rightarrow> pyfloat" where
  \<comment> \<open>\<^verbatim>\<open>a - b\<close>\<close>
  "py_sub (Fin x) (Fin y) = to_double (x - y)"
| "py_sub NaN _ = NaN"
| "py_sub _ NaN = NaN"
| "py_sub PInf PInf = NaN"
| "py_sub NInf NInf = NaN"
| "py_sub PInf _ = PInf"
| "py_sub NInf _ = NInf"
| "py_sub (Fin x) PInf = NInf"
| "py_sub (Fin x) NInf = PInf"

fun py_abs :: "pyfloat \<Rightarrow> pyfloat" where
  \<comment> \<open>\<^verbatim>\<open>abs(a)\<close>\<close>
  "py_abs (Fin x) = Fin \<bar>x\<bar>"
| "py_abs PInf = PInf"
| "py_abs NInf = PInf"
| "py_abs NaN = NaN"

fun py_lt :: "pyfloat \<Rightarrow> pyfloat \<Rightarrow> bool" where
  \<comment> \<open>\<^verbatim>\<open>a < b\<close>: false when either is a NaN\<close>
  "py_lt (Fin x) (Fin y) = (x < y)"
| "py_lt NaN _ = False"
| "py_lt _ NaN = False"
| "py_lt _ NInf = False"
| "py_lt PInf _ = False"
| "py_lt NInf _ = True"
| "py_lt (Fin x) PInf = True"

fun py_eq :: "pyfloat \<Rightarrow> pyfloat \<Rightarrow> bool" where
  \<comment> \<open>\<^verbatim>\<open>a == b\<close>: false when either is a NaN\<close>
  "py_eq NaN _ = False"
| "py_eq _ NaN = False"
| "py_eq a b = (a = b)"

definition py_le :: "pyfloat \<Rightarrow> pyfloat \<Rightarrow> bool" where
  \<comment> \<open>\<^verbatim>\<open>a <= b\<close>\<close>
  "py_le a b \<longleftrightarrow> py_lt a b \<or> py_eq a b"

fun py_div :: "pyfloat \<Rightarrow> rat \<Rightarrow> pyfloat" where
  \<comment> \<open>\<^verbatim>\<open>a / c\<close> for a positive finite constant \<open>c\<close>\<close>
  "py_div (Fin x) c = to_double (x / c)"
| "py_div PInf c = PInf"
| "py_div NInf c = NInf"
| "py_div NaN c = NaN"

definition round2 :: "rat \<Rightarrow> rat" where
  \<comment> \<open>a number rounded to two decimals, an exact tie to the even neighbour\<close>
  "round2 x = of_int (round_half_even (x * 100)) / 100"

definition fmt2_rat :: "rat \<Rightarrow> string" where
  \<comment> \<open>the exact value of a finite double with two decimals: Python's conversion is
      correctly rounded, an exact tie going to the even neighbour\<close>
  "fmt2_rat x =
     (let n = round_half_even (\<bar>x\<bar> * 100);
          body = digits (n div 100) @ ''.'' @ [digit_char (n div 10 mod 10), digit_char (n mod 10)]
      in if x < 0 then ''-'' @ body else body)"

fun fmt2 :: "pyfloat \<Rightarrow> string" where
  \<comment> \<open>\<^verbatim>\<open>f"{x:.2f}"\<close>\<close>
  "fmt2 (Fin x) = fmt2_rat x"
| "fmt2 PInf = ''inf''"
| "fmt2 NInf = ''-inf''"
| "fmt2 NaN = ''nan''"

section \<open>The regular expressions\<close>

text \<open>
  The script matches with \<^verbatim>\<open>re.match\<close>, which anchors the pattern at the start of
  the line and not at its end. Python matches greedily and backtracks. In the spectrum
  pattern and in the mode pattern every repetition is followed by an item that can start
  with no character of the repeated class, so giving a character back never helps: the
  greedy reading is the only one, and a scan from left to right that takes each repetition
  as long as it can be decides the match and the groups. Each item of a pattern is a
  function from the rest of the line to the matched text and the new rest.
\<close>

definition star :: "(char \<Rightarrow> bool) \<Rightarrow> string \<Rightarrow> (string \<times> string) option" where
  \<comment> \<open>\<^verbatim>\<open>C*\<close> for a class C\<close>
  "star P s = Some (takeWhile P s, dropWhile P s)"

definition plus1 :: "(char \<Rightarrow> bool) \<Rightarrow> string \<Rightarrow> (string \<times> string) option" where
  \<comment> \<open>\<^verbatim>\<open>C+\<close> for a class C\<close>
  "plus1 P s = (if takeWhile P s = [] then None else Some (takeWhile P s, dropWhile P s))"

definition lit :: "string \<Rightarrow> string \<Rightarrow> string option" where
  \<comment> \<open>literal text\<close>
  "lit p s = (if startswith s p then Some (drop (length p) s) else None)"

definition pat :: "string \<Rightarrow> (string \<times> string \<times> string) option" where
  \<comment> \<open>\<^verbatim>\<open>\s*(\d+):\s*([\d.]+)\s+\S+\s+([\d.]+)\<close>, the groups of a match\<close>
  "pat line =
     Option.bind (star is_space line) (\<lambda>(_, a).
     Option.bind (plus1 is_digit a) (\<lambda>(g1, a).
     Option.bind (lit '':'' a) (\<lambda>a.
     Option.bind (star is_space a) (\<lambda>(_, a).
     Option.bind (plus1 is_digdot a) (\<lambda>(g2, a).
     Option.bind (plus1 is_space a) (\<lambda>(_, a).
     Option.bind (plus1 (\<lambda>c. \<not> is_space c) a) (\<lambda>(_, a).
     Option.bind (plus1 is_space a) (\<lambda>(_, a).
     Option.bind (plus1 is_digdot a) (\<lambda>(g3, _).
     Some (g1, g2, g3))))))))))"

definition pat_mode :: "string \<Rightarrow> (string \<times> string \<times> string) option" where
  \<comment> \<open>\<^verbatim>\<open>\s*Mode\s+(\d+):\s*([\d.]+)\s*cm-1\s*\(IR:\s*([\d.]+)\)\<close>, the groups of a match\<close>
  "pat_mode line =
     Option.bind (star is_space line) (\<lambda>(_, a).
     Option.bind (lit ''Mode'' a) (\<lambda>a.
     Option.bind (plus1 is_space a) (\<lambda>(_, a).
     Option.bind (plus1 is_digit a) (\<lambda>(g1, a).
     Option.bind (lit '':'' a) (\<lambda>a.
     Option.bind (star is_space a) (\<lambda>(_, a).
     Option.bind (plus1 is_digdot a) (\<lambda>(g2, a).
     Option.bind (star is_space a) (\<lambda>(_, a).
     Option.bind (lit ''cm-1'' a) (\<lambda>a.
     Option.bind (star is_space a) (\<lambda>(_, a).
     Option.bind (lit ''(IR:'' a) (\<lambda>a.
     Option.bind (star is_space a) (\<lambda>(_, a).
     Option.bind (plus1 is_digdot a) (\<lambda>(g3, a).
     Option.bind (lit '')'' a) (\<lambda>_.
     Some (g1, g2, g3)))))))))))))))"


text \<open>
  A line whose frequency field carries a minus sign: the line follows the pattern up to
  the frequency field, and a minus sign stands where the field starts.
\<close>

definition minus_freq_spectrum_line :: "string \<Rightarrow> bool" where
  \<comment> \<open>\<^verbatim>\<open>\s*\d+:\s*\<close> and then a minus sign\<close>
  "minus_freq_spectrum_line line =
     (case Option.bind (star is_space line) (\<lambda>(_, a).
           Option.bind (plus1 is_digit a) (\<lambda>(_, a).
           Option.bind (lit '':'' a) (\<lambda>a.
           star is_space a))) of
        None \<Rightarrow> False
      | Some (_, a) \<Rightarrow> startswith a ''-'')"

definition minus_freq_header_line :: "string \<Rightarrow> bool" where
  \<comment> \<open>\<^verbatim>\<open>\s*Mode\s+\d+:\s*\<close> and then a minus sign\<close>
  "minus_freq_header_line line =
     (case Option.bind (star is_space line) (\<lambda>(_, a).
           Option.bind (lit ''Mode'' a) (\<lambda>a.
           Option.bind (plus1 is_space a) (\<lambda>(_, a).
           Option.bind (plus1 is_digit a) (\<lambda>(_, a).
           Option.bind (lit '':'' a) (\<lambda>a.
           star is_space a))))) of
        None \<Rightarrow> False
      | Some (_, a) \<Rightarrow> startswith a ''-'')"

section \<open>Data\<close>

text \<open>
  The extractor's result is a Python \<^verbatim>\<open>dict\<close> from the mode index to
  \<^verbatim>\<open>{"freq": ..., "ir": ...}\<close>. A \<^verbatim>\<open>dict\<close> keeps its keys in the order of their first
  insertion, and the merger scans it in that order, so it is modelled as an association
  list: \<^const>\<open>AList.update\<close> overwrites a key in place or appends a new one, as
  \<^verbatim>\<open>d[k] = v\<close> does, and \<^const>\<open>AList.delete\<close> is \<^verbatim>\<open>del d[k]\<close>.
\<close>

record spectrum =
  freq :: pyfloat
  ir :: pyfloat

type_synonym orca = "(int \<times> spectrum) list"

datatype error =
    SectionNotFound         \<comment> \<open>\<^verbatim>\<open>ValueError("IR SPECTRUM section not found ...")\<close>\<close>
  | NoModesFound            \<comment> \<open>\<^verbatim>\<open>ValueError("No IR modes found ...")\<close>\<close>
  | FloatValueError string  \<comment> \<open>the \<^verbatim>\<open>ValueError\<close> of \<^verbatim>\<open>float()\<close> on the text given\<close>
  | IntValueError string    \<comment> \<open>the \<^verbatim>\<open>ValueError\<close> of \<^verbatim>\<open>int()\<close> on the text given\<close>
  | KeyError int            \<comment> \<open>a key missing from the remaining modes\<close>
  | NoModesInReport         \<comment> \<open>\<^verbatim>\<open>ValueError("No vibrational modes found in the NMA file ...")\<close>\<close>

datatype warning =
    NoEndMarker             \<comment> \<open>no explicit end of the section was found\<close>
  | NoReplacements          \<comment> \<open>no intensity was updated\<close>
  | Unmatched nat "pyfloat list" \<comment> \<open>how many modes were left, and their frequencies\<close>

section \<open>The spectrum extractor: \<^verbatim>\<open>parse_orca_ir\<close>\<close>

fun first_index :: "('a \<Rightarrow> bool) \<Rightarrow> 'a list \<Rightarrow> nat option" where
  \<comment> \<open>\<^verbatim>\<open>next((i for i, x in enumerate(xs) if P(x)), None)\<close>\<close>
  "first_index P [] = None"
| "first_index P (x # xs) = (if P x then Some 0 else map_option Suc (first_index P xs))"

definition find_start :: "string list \<Rightarrow> nat option" where
  "find_start lines = first_index (\<lambda>l. startswith (strip l) ''IR SPECTRUM'') lines"

definition find_footer :: "nat \<Rightarrow> string list \<Rightarrow> nat option" where
  \<comment> \<open>the first \<open>j\<close> of \<^verbatim>\<open>range(start, len(lines))\<close> whose line holds the footer phrase\<close>
  "find_footer start lines =
     map_option (\<lambda>j. start + j)
       (first_index (\<lambda>l. contains l ''Maximum memory used throughout the entire PROP-calculation'')
          (drop start lines))"

definition is_break :: "string list \<Rightarrow> nat \<Rightarrow> bool" where
  \<comment> \<open>the test of the fallback loop at index \<open>k\<close>\<close>
  "is_break lines k \<longleftrightarrow>
     (if k + 1 < length lines
      then length (strip (lines ! k)) = 0 \<and> 0 < length (strip (lines ! (k + 1)))
      else False)
     \<or> startswith (strip (lines ! k)) ''---'' \<or> startswith (strip (lines ! k)) ''**********''"

definition section_end :: "nat \<Rightarrow> string list \<Rightarrow> nat \<times> warning list" where
  \<comment> \<open>the end of the window, and the warning printed when it is the end of the input\<close>
  "section_end start lines =
     (case find_footer start lines of
        Some e \<Rightarrow> (e, [])
      | None \<Rightarrow>
          (let e = (case List.find (is_break lines) [start + 1 ..< length lines] of
                      Some k \<Rightarrow> k
                    | None \<Rightarrow> length lines)
           in (e, if e = length lines then [NoEndMarker] else [])))"

definition window :: "nat \<Rightarrow> nat \<Rightarrow> string list \<Rightarrow> string list" where
  \<comment> \<open>\<^verbatim>\<open>lines[start:end]\<close> for \<open>start \<le> len(lines)\<close>\<close>
  "window start e lines = take (e - start) (drop start lines)"

fun collect :: "orca \<Rightarrow> string list \<Rightarrow> error + orca" where
  \<comment> \<open>the loop over the window, from the dictionary built so far\<close>
  "collect orca [] = Inr orca"
| "collect orca (l # ls) =
     (case pat l of
        None \<Rightarrow> collect orca ls
      | Some (g1, g2, g3) \<Rightarrow>
          (case py_int g1 of
             None \<Rightarrow> Inl (IntValueError g1)
           | Some idx \<Rightarrow>
               (case py_float g2 of
                  None \<Rightarrow> Inl (FloatValueError g2)
                | Some f \<Rightarrow>
                    (case py_float g3 of
                       None \<Rightarrow> Inl (FloatValueError g3)
                     | Some i \<Rightarrow> collect (AList.update idx \<lparr>freq = f, ir = i\<rparr> orca) ls))))"

definition parse_orca_ir :: "string list \<Rightarrow> warning list \<times> (error + orca)" where
  \<comment> \<open>the warnings printed, and the dictionary returned or the error raised\<close>
  "parse_orca_ir lines =
     (case find_start lines of
        None \<Rightarrow> ([], Inl SectionNotFound)
      | Some start \<Rightarrow>
          (let (e, warns) = section_end start lines in
             (warns,
              case collect [] (window start e lines) of
                Inl err \<Rightarrow> Inl err
              | Inr orca \<Rightarrow> if orca = [] then Inl NoModesFound else Inr orca)))"

text \<open>
  Notions used to state properties of the extractor: whether the label occurs, the window
  \<^verbatim>\<open>lines[start:end]\<close> that the function scans, the groups of the lines of a list that
  match the record pattern, the mode indices read from them, and whether \<^verbatim>\<open>int()\<close>
  and \<^verbatim>\<open>float()\<close> accept the number fields of each of them.
\<close>

definition has_label :: "string list \<Rightarrow> bool" where
  "has_label lines \<longleftrightarrow> (\<exists>l \<in> set lines. startswith (strip l) ''IR SPECTRUM'')"

definition bounded_window :: "string list \<Rightarrow> string list" where
  "bounded_window lines =
     (case find_start lines of
        None \<Rightarrow> []
      | Some start \<Rightarrow> window start (fst (section_end start lines)) lines)"

definition matched :: "string list \<Rightarrow> (string \<times> string \<times> string) list" where
  "matched ls = List.map_filter pat ls"

definition mode_indices :: "string list \<Rightarrow> int list" where
  "mode_indices ls = map (\<lambda>(g1, g2, g3). digits_value g1) (matched ls)"


section \<open>The report merger: \<^verbatim>\<open>replace_vmard_ir\<close>\<close>

text \<open>
  The file is read with \<^verbatim>\<open>f.read().splitlines()\<close> and written as the lines joined by
  a newline; the model starts from the list of lines read and ends with the list of lines
  joined. The backup copy and the file system are outside the model.
\<close>

definition tolerance :: pyfloat where
  \<comment> \<open>the literal \<^verbatim>\<open>0.05\<close>: the double nearest to it\<close>
  "tolerance = to_double (5 / 100)"

definition within_tol :: "spectrum \<Rightarrow> pyfloat \<Rightarrow> bool" where
  \<comment> \<open>the test \<^verbatim>\<open>abs(v_data["freq"] - freq) < 0.05\<close> of the scan\<close>
  "within_tol v_data f \<longleftrightarrow> py_lt (py_abs (py_sub (freq v_data) f)) tolerance"

fun find_match :: "orca \<Rightarrow> pyfloat \<Rightarrow> int option" where
  \<comment> \<open>the scan of the remaining modes for the first one within the tolerance\<close>
  "find_match [] f = None"
| "find_match ((o_idx, v_data) # rest) f =
     (if within_tol v_data f then Some o_idx else find_match rest f)"

definition new_ln :: "int \<Rightarrow> pyfloat \<Rightarrow> pyfloat \<Rightarrow> string" where
  \<comment> \<open>\<^verbatim>\<open>f"Mode {vm_mode}:  {freq:.2f} cm-1 (IR: {irv:.2f})"\<close>\<close>
  "new_ln vm_mode f irv =
     ''Mode '' @ str_int vm_mode @ '':  '' @ fmt2 f @ '' cm-1 (IR: '' @ fmt2 irv @ '')''"

record merge_state =
  out :: "string list"
  replacements_made :: nat
  remaining :: orca

definition merge_line :: "merge_state \<Rightarrow> string \<Rightarrow> error + merge_state" where
  \<comment> \<open>the body of the loop over the lines\<close>
  "merge_line st l =
     (case pat_mode l of
        None \<Rightarrow> Inr (st\<lparr>out := out st @ [l]\<rparr>)
      | Some (g1, g2, g3) \<Rightarrow>
          (case py_int g1 of
             None \<Rightarrow> Inl (IntValueError g1)
           | Some vm_mode \<Rightarrow>
               (case py_float g2 of
                  None \<Rightarrow> Inl (FloatValueError g2)
                | Some f \<Rightarrow>
                    (case find_match (remaining st) f of
                       None \<Rightarrow> Inr (st\<lparr>out := out st @ [l]\<rparr>)
                     | Some match_key \<Rightarrow>
                         (case map_of (remaining st) match_key of
                            None \<Rightarrow> Inl (KeyError match_key)
                          | Some v \<Rightarrow>
                              Inr \<lparr>out = out st @ [new_ln vm_mode f (ir v)],
                                   replacements_made = replacements_made st + 1,
                                   remaining = AList.delete match_key (remaining st)\<rparr>)))))"

fun merge_lines :: "merge_state \<Rightarrow> string list \<Rightarrow> error + merge_state" where
  "merge_lines st [] = Inr st"
| "merge_lines st (l # ls) =
     (case merge_line st l of Inl e \<Rightarrow> Inl e | Inr st' \<Rightarrow> merge_lines st' ls)"

definition merge_warnings :: "merge_state \<Rightarrow> warning list" where
  "merge_warnings st =
     (if replacements_made st = 0 then [NoReplacements]
      else if 0 < length (remaining st)
      then [Unmatched (length (remaining st)) (map (\<lambda>(k, v). freq v) (remaining st))]
      else [])"

definition replace_vmard_ir :: "string list \<Rightarrow> orca \<Rightarrow> error + (warning list \<times> string list)" where
  \<comment> \<open>from the lines read and the extractor's modes to the warnings and the lines written\<close>
  "replace_vmard_ir lines orca_modes =
     (case merge_lines \<lparr>out = [], replacements_made = 0, remaining = orca_modes\<rparr> lines of
        Inl e \<Rightarrow> Inl e
      | Inr st \<Rightarrow> Inr (merge_warnings st, out st))"

definition header_numbers_ok :: "string list \<Rightarrow> bool" where
  \<comment> \<open>\<^verbatim>\<open>int()\<close> accepts the mode number and \<^verbatim>\<open>float()\<close> the frequency field of every line
      that matches the mode pattern\<close>
  "header_numbers_ok lines \<longleftrightarrow>
     list_all
       (\<lambda>l. case pat_mode l of
               None \<Rightarrow> True
             | Some (g1, g2, g3) \<Rightarrow> py_int g1 \<noteq> None \<and> py_float g2 \<noteq> None)
       lines"

text \<open>A small report and small spectra, used to run the merger on concrete input.\<close>

definition demo_report :: "string list" where
  "demo_report =
     [''Title line'',
      ''Mode 1:  100.00 cm-1 (IR: 0.00)'',
      ''+0.50 (50.0%) BOND C1 H2'',
      ''Mode 2:  100.03 cm-1 (IR: 0.00)'']"

definition demo_orca :: orca where
  "demo_orca =
     [(6, \<lparr>freq = to_double (10001 / 100), ir = to_double (617 / 50)\<rparr>),
      (7, \<lparr>freq = Fin 200, ir = Fin 1\<rparr>)]"

definition demo_orca2 :: orca where
  \<comment> \<open>two records that the doubles put within 0.05 of 100.00\<close>
  "demo_orca2 =
     [(5, \<lparr>freq = to_double (10005 / 100), ir = Fin 3\<rparr>),
      (6, \<lparr>freq = to_double (10001 / 100), ir = to_double (617 / 50)\<rparr>)]"

definition demo_spectrum :: "string list" where
  "demo_spectrum = [''IR SPECTRUM'', ''   6:   100.01 cm**-1   12.345'']"

definition demo_orca3 :: orca where
  "demo_orca3 = [(6, \<lparr>freq = to_double (10001 / 100), ir = to_double (2469 / 200)\<rparr>)]"

definition written_text :: "string list \<Rightarrow> string" where
  \<comment> \<open>\<^verbatim>\<open>"\n".join(out)\<close>\<close>
  "written_text ls = join [CHR 0x0A] ls"

section \<open>The report parser: \<^verbatim>\<open>parse_aligned_nma\<close>\<close>

text \<open>
  The contribution pattern is
  \<^verbatim>\<open>\s*[+-]?([\d.]+)\s+\(\s*([\d.]+)%\)\s+(\w+)\s+(.+)\<close>. Up to the type token the
  greedy scan decides it, as above. In the tail \<^verbatim>\<open>\s+(.+)\<close> backtracking matters, since
  white space other than the newline is matched by the dot as well: Python gives the run
  of white space after the type token as many characters as it can while at least one
  character that is not a newline follows, and the last group runs from there to the next
  newline or to the end.
\<close>

definition opt_sign :: "string \<Rightarrow> string" where
  \<comment> \<open>\<^verbatim>\<open>[+-]?\<close>: the rest after an optional sign\<close>
  "opt_sign s = (case s of [] \<Rightarrow> [] | c # r \<Rightarrow> if c = CHR ''+'' \<or> c = CHR ''-'' then r else s)"

definition newline :: char where
  "newline = CHR 0x0A"

definition ws_then_any :: "string \<Rightarrow> string option" where
  \<comment> \<open>\<^verbatim>\<open>\s+(.+)\<close>: the last group\<close>
  "ws_then_any s =
     (let w = length (takeWhile is_space s) in
        case List.find (\<lambda>i. i < length s \<and> s ! i \<noteq> newline) (rev [1 ..< Suc w]) of
          None \<Rightarrow> None
        | Some i \<Rightarrow> Some (takeWhile (\<lambda>c. c \<noteq> newline) (drop i s)))"

definition pat_contrib :: "string \<Rightarrow> (string \<times> string \<times> string \<times> string) option" where
  "pat_contrib line =
     Option.bind (star is_space line) (\<lambda>(_, a).
     Option.bind (plus1 is_digdot (opt_sign a)) (\<lambda>(g1, a).
     Option.bind (plus1 is_space a) (\<lambda>(_, a).
     Option.bind (lit ''('' a) (\<lambda>a.
     Option.bind (star is_space a) (\<lambda>(_, a).
     Option.bind (plus1 is_digdot a) (\<lambda>(g2, a).
     Option.bind (lit ''%)'' a) (\<lambda>a.
     Option.bind (plus1 is_space a) (\<lambda>(_, a).
     Option.bind (plus1 is_word a) (\<lambda>(g3, a).
     Option.bind (ws_then_any a) (\<lambda>g4.
     Some (g1, g2, g3, g4)))))))))))"

record contribution =
  ctype :: string          \<comment> \<open>\<^verbatim>\<open>'type'\<close>\<close>
  atoms :: "string list"   \<comment> \<open>\<^verbatim>\<open>'atoms'\<close>\<close>
  weight :: pyfloat        \<comment> \<open>\<^verbatim>\<open>'weight'\<close>\<close>

record mode_record =
  Mode :: int
  Freq :: pyfloat
  IR :: pyfloat
  Contrib :: "contribution list"

definition nma_line :: "mode_record list \<Rightarrow> string \<Rightarrow> error + mode_record list" where
  \<comment> \<open>the body of the loop over the lines of the file\<close>
  "nma_line modes line =
     (case pat_mode line of
        Some (g1, g2, g3) \<Rightarrow>
          (case py_int g1 of
             None \<Rightarrow> Inl (IntValueError g1)
           | Some idx \<Rightarrow>
               (case py_float g2 of
                  None \<Rightarrow> Inl (FloatValueError g2)
                | Some f \<Rightarrow>
                    (case py_float g3 of
                       None \<Rightarrow> Inl (FloatValueError g3)
                     | Some i \<Rightarrow>
                         Inr (modes @ [\<lparr>Mode = idx, Freq = f, IR = i, Contrib = []\<rparr>]))))
      | None \<Rightarrow>
          if (startswith (strip line) ''+'' \<or> startswith (strip line) ''-'') \<and> modes \<noteq> []
          then (case pat_contrib line of
                  None \<Rightarrow> Inr modes
                | Some (g1, g2, g3, g4) \<Rightarrow>
                    (case py_float g2 of
                       None \<Rightarrow> Inl (FloatValueError g2)
                     | Some p \<Rightarrow>
                         Inr (butlast modes @
                              [(last modes)\<lparr>Contrib := Contrib (last modes) @
                                 [\<lparr>ctype = g3, atoms = split_ws g4, weight = py_div p 100\<rparr>]\<rparr>])))
          else Inr modes)"

fun nma_lines :: "mode_record list \<Rightarrow> string list \<Rightarrow> error + mode_record list" where
  "nma_lines modes [] = Inr modes"
| "nma_lines modes (l # ls) =
     (case nma_line modes l of Inl e \<Rightarrow> Inl e | Inr modes' \<Rightarrow> nma_lines modes' ls)"

definition parse_aligned_nma :: "string list \<Rightarrow> error + mode_record list" where
  \<comment> \<open>from the lines of the file, each with its line end, to the mode records\<close>
  "parse_aligned_nma lines =
     (case nma_lines [] lines of
        Inl e \<Rightarrow> Inl e
      | Inr modes \<Rightarrow> if modes = [] then Inl NoModesInReport else Inr modes)"

definition file_lines :: "string list \<Rightarrow> string list" where
  \<comment> \<open>the lines a file iteration yields for the text \<^verbatim>\<open>"\n".join(out)\<close>, when no line of
      \<open>out\<close> holds a line break: each with its newline, but for the last\<close>
  "file_lines ls = (if ls = [] then [] else map (\<lambda>l. l @ [newline]) (butlast ls) @ [last ls])"

section \<open>The aggregator: \<^verbatim>\<open>calc_counts_and_top\<close>\<close>

text \<open>
  The counts of a mode are a \<^verbatim>\<open>dict\<close> from the upper-cased type token to a number,
  again an association list. A row of the result is the dictionary the function appends,
  with one field for each of its eight keys; the frame is what \<^verbatim>\<open>pd.DataFrame(rows)\<close>
  makes of the rows: the columns are the keys of the rows, and there are no columns when
  there are no rows.
\<close>

definition init_cnt :: "(string \<times> int) list" where
  \<comment> \<open>\<^verbatim>\<open>{'BOND': 0, 'ANGLE': 0, 'OUT': 0, 'TORSION': 0}\<close>\<close>
  "init_cnt = [(''BOND'', 0), (''ANGLE'', 0), (''OUT'', 0), (''TORSION'', 0)]"

definition canonical :: "string list" where
  "canonical = [''BOND'', ''ANGLE'', ''OUT'', ''TORSION'']"

definition cnt_get :: "(string \<times> int) list \<Rightarrow> string \<Rightarrow> int \<Rightarrow> int" where
  \<comment> \<open>\<^verbatim>\<open>cnt.get(key, d)\<close>\<close>
  "cnt_get cnt key d = (case map_of cnt key of None \<Rightarrow> d | Some n \<Rightarrow> n)"

definition count_key :: "contribution \<Rightarrow> string" where
  \<comment> \<open>\<^verbatim>\<open>'TORSION' if c['type'].upper() == 'TORSION' else c['type'].upper()\<close>\<close>
  "count_key c = (if upper (ctype c) = ''TORSION'' then ''TORSION'' else upper (ctype c))"

definition count_one :: "(string \<times> int) list \<Rightarrow> contribution \<Rightarrow> (string \<times> int) list" where
  \<comment> \<open>the body of the loop: \<^verbatim>\<open>cnt[key] = cnt.get(key, 0) + 1\<close>\<close>
  "count_one cnt c = (let key = count_key c in AList.update key (cnt_get cnt key 0 + 1) cnt)"

fun count_contribs :: "(string \<times> int) list \<Rightarrow> contribution list \<Rightarrow> (string \<times> int) list" where
  "count_contribs cnt [] = cnt"
| "count_contribs cnt (c # cs) = count_contribs (count_one cnt c) cs"

definition float_rank :: "pyfloat \<Rightarrow> int \<times> rat" where
  \<comment> \<open>the order of the floats that are no NaN, as a key in the lexicographic order of
      pairs; a NaN, which compares false with everything, is given a rank only to make the
      function total\<close>
  "float_rank a = (case a of NInf \<Rightarrow> (- 1, 0) | Fin x \<Rightarrow> (0, x) | PInf \<Rightarrow> (1, 0) | NaN \<Rightarrow> (2, 0))"

definition py_sorted_reverse :: "('a \<Rightarrow> pyfloat) \<Rightarrow> 'a list \<Rightarrow> 'a list" where
  \<comment> \<open>\<^verbatim>\<open>sorted(xs, key=f, reverse=True)\<close> for keys that are no NaN: CPython reverses the
      list, sorts it with its stable sort in ascending order of the key, and reverses the
      result\<close>
  "py_sorted_reverse f xs = rev (sort_key (\<lambda>x. float_rank (f x)) (rev xs))"

definition top_contribs :: "nat \<Rightarrow> contribution list \<Rightarrow> contribution list" where
  \<comment> \<open>\<^verbatim>\<open>sorted(m['Contrib'], key=lambda x: x['weight'], reverse=True)[:topn]\<close>, for a
      \<open>topn\<close> that is not negative\<close>
  "top_contribs topn cs = take topn (py_sorted_reverse weight cs)"

definition render_contrib :: "contribution \<Rightarrow> string" where
  \<comment> \<open>\<^verbatim>\<open>f"{c['type']}({' '.join(c['atoms'])}):{c['weight']:.2f}"\<close>\<close>
  "render_contrib c = ctype c @ ''('' @ join '' '' (atoms c) @ ''):'' @ fmt2 (weight c)"

definition topstr :: "nat \<Rightarrow> contribution list \<Rightarrow> string" where
  "topstr topn cs = join ''; '' (map render_contrib (top_contribs topn cs))"

record result_row =
  row_Mode :: int          \<comment> \<open>\<^verbatim>\<open>'Mode'\<close>\<close>
  row_Freq :: string       \<comment> \<open>\<^verbatim>\<open>'Freq_cm-1'\<close>\<close>
  row_IR :: string         \<comment> \<open>\<^verbatim>\<open>'IR_Intensity_km/mol'\<close>\<close>
  row_BOND :: int          \<comment> \<open>\<^verbatim>\<open>'BOND_Contribs'\<close>\<close>
  row_ANGLE :: int         \<comment> \<open>\<^verbatim>\<open>'ANGLE_Contribs'\<close>\<close>
  row_OUT :: int           \<comment> \<open>\<^verbatim>\<open>'OUT_Contribs'\<close>\<close>
  row_TORSION :: int       \<comment> \<open>\<^verbatim>\<open>'TORSION_Contribs'\<close>\<close>
  row_Top :: string        \<comment> \<open>\<^verbatim>\<open>'Top_Contributions'\<close>\<close>

definition mode_row :: "nat \<Rightarrow> mode_record \<Rightarrow> result_row" where
  \<comment> \<open>the body of the loop over the modes\<close>
  "mode_row topn m =
     (let cnt = count_contribs init_cnt (Contrib m) in
        \<lparr>row_Mode = Mode m,
         row_Freq = fmt2 (Freq m),
         row_IR = fmt2 (IR m),
         row_BOND = cnt_get cnt ''BOND'' 0,
         row_ANGLE = cnt_get cnt ''ANGLE'' 0,
         row_OUT = cnt_get cnt ''OUT'' 0,
         row_TORSION = cnt_get cnt ''TORSION'' 0,
         row_Top = topstr topn (Contrib m)\<rparr>)"

definition result_columns :: "string list" where
  "result_columns =
     [''Mode'', ''Freq_cm-1'', ''IR_Intensity_km/mol'', ''BOND_Contribs'', ''ANGLE_Contribs'',
      ''OUT_Contribs'', ''TORSION_Contribs'', ''Top_Contributions'']"

record dataframe =
  df_columns :: "string list"
  df_rows :: "result_row list"

definition calc_counts_and_top :: "mode_record list \<Rightarrow> nat \<Rightarrow> dataframe" where
  "calc_counts_and_top modes topn =
     \<lparr>df_columns = (if modes = [] then [] else result_columns),
      df_rows = map (mode_row topn) modes\<rparr>"

definition demo_mode :: mode_record where
  "demo_mode =
     \<lparr>Mode = 1, Freq = Fin 150, IR = to_double (617 / 50),
      Contrib =
        [\<lparr>ctype = ''bond'', atoms = [''C1'', ''H2''], weight = to_double (3 / 10)\<rparr>,
         \<lparr>ctype = ''Torsion'', atoms = [''C1'', ''C2'', ''C3'', ''C4''], weight = Fin (1 / 2)\<rparr>,
         \<lparr>ctype = ''ANGLE'', atoms = [''H2'', ''C1'', ''C2''], weight = to_double (3 / 10)\<rparr>,
         \<lparr>ctype = ''WAG'', atoms = [''C9''], weight = to_double (3 / 10)\<rparr>]\<rparr>"

section \<open>Properties of the extractor\<close>

lemma first_index_None: "first_index P xs = None \<longleftrightarrow> (\<forall>x \<in> set xs. \<not> P x)"
  by (induction xs) auto

lemma matched_Nil: "matched [] = []"
  by (simp add: matched_def List.map_filter_simps)

lemma matched_Cons:
  "matched (l # ls) = (case pat l of None \<Rightarrow> matched ls | Some g \<Rightarrow> g # matched ls)"
  by (simp add: matched_def List.map_filter_simps split: option.splits)

lemma collect_error:
  "collect orca ls = Inl e \<Longrightarrow> \<exists>s. e = FloatValueError s \<or> e = IntValueError s"
  by (induction ls arbitrary: orca) (auto split: option.splits prod.splits)

lemma collect_no_match: "\<forall>l \<in> set ls. pat l = None \<Longrightarrow> collect orca ls = Inr orca"
  by (induction ls arbitrary: orca) auto

lemma find_start_None: "find_start lines = None \<longleftrightarrow> \<not> has_label lines"
  by (simp add: find_start_def has_label_def first_index_None)

lemma parse_orca_ir_window:
  "has_label lines \<Longrightarrow>
     snd (parse_orca_ir lines) =
       (case collect [] (bounded_window lines) of
          Inl err \<Rightarrow> Inl err
        | Inr orca \<Rightarrow> if orca = [] then Inl NoModesFound else Inr orca)"
  using find_start_None [of lines]
  by (auto simp: parse_orca_ir_def bounded_window_def split: option.splits prod.splits)

text \<open>
  C3. The extractor raises the section error exactly when no line, trimmed, starts with
  the label \<^verbatim>\<open>IR SPECTRUM\<close>; it raises the no-modes error when the label is there and no
  line of the window \<^verbatim>\<open>lines[start:end]\<close> matches the record pattern; and a dictionary it
  returns is never empty.
\<close>

theorem parse_orca_ir_errors:
  "(snd (parse_orca_ir lines) = Inl SectionNotFound \<longleftrightarrow> \<not> has_label lines) \<and>
   (has_label lines \<and> (\<forall>l \<in> set (bounded_window lines). pat l = None) \<longrightarrow>
      snd (parse_orca_ir lines) = Inl NoModesFound) \<and>
   (\<forall>orca. snd (parse_orca_ir lines) = Inr orca \<longrightarrow> orca \<noteq> [])"
proof (intro conjI allI impI)
  show "snd (parse_orca_ir lines) = Inl SectionNotFound \<longleftrightarrow> \<not> has_label lines"
  proof (cases "has_label lines")
    case True
    have "snd (parse_orca_ir lines) \<noteq> Inl SectionNotFound"
      using collect_error [of "[]" "bounded_window lines"]
      by (auto simp: parse_orca_ir_window [OF True] split: sum.splits if_splits)
    with True show ?thesis by simp
  next
    case False
    then have "find_start lines = None" by (simp add: find_start_None)
    with False show ?thesis by (simp add: parse_orca_ir_def)
  qed
next
  assume "has_label lines \<and> (\<forall>l \<in> set (bounded_window lines). pat l = None)"
  then show "snd (parse_orca_ir lines) = Inl NoModesFound"
    by (simp add: parse_orca_ir_window collect_no_match)
next
  fix orca
  assume r: "snd (parse_orca_ir lines) = Inr orca"
  show "orca \<noteq> []"
  proof (cases "has_label lines")
    case True
    with r show ?thesis
      by (auto simp: parse_orca_ir_window split: sum.splits if_splits)
  next
    case False
    then have "find_start lines = None" by (simp add: find_start_None)
    with r show ?thesis by (simp add: parse_orca_ir_def)
  qed
qed

theorem parse_orca_ir_errors_witness:
  "snd (parse_orca_ir [''ORCA output'', ''no spectrum'']) = Inl SectionNotFound \<and>
   snd (parse_orca_ir [''IR SPECTRUM'', '' Mode   freq'', '' 6:  -50.23 cm**-1  1.0''])
     = Inl NoModesFound \<and>
   snd (parse_orca_ir [''IR SPECTRUM'', '' 6:  50.23 cm**-1  1.0''])
     = Inr [(6, \<lparr>freq = to_double (5023 / 100), ir = Fin 1\<rparr>)] \<and>
   [(6 :: int, \<lparr>freq = to_double (5023 / 100), ir = Fin 1\<rparr>)] \<noteq> []"
proof -
  let ?a = "[''ORCA output'', ''no spectrum'']"
  let ?b = "[''IR SPECTRUM'', '' Mode   freq'', '' 6:  -50.23 cm**-1  1.0'']"
  let ?c = "[''IR SPECTRUM'', '' 6:  50.23 cm**-1  1.0'']"
  have a: "\<not> has_label ?a" by code_simp
  have b: "has_label ?b \<and> (\<forall>l \<in> set (bounded_window ?b). pat l = None)" by code_simp
  have c: "snd (parse_orca_ir ?c) = Inr [(6, \<lparr>freq = to_double (5023 / 100), ir = Fin 1\<rparr>)]" by code_simp
  from a parse_orca_ir_errors [of ?a] have "snd (parse_orca_ir ?a) = Inl SectionNotFound"
    by blast
  moreover from b parse_orca_ir_errors [of ?b]
  have "snd (parse_orca_ir ?b) = Inl NoModesFound"
    by blast
  moreover from c parse_orca_ir_errors [of ?c]
  have "[(6 :: int, \<lparr>freq = to_double (5023 / 100), ir = Fin 1\<rparr>)] \<noteq> []"
    by blast
  ultimately show ?thesis using c by simp
qed

lemma collect_keys:
  "collect orca ls = Inr res \<Longrightarrow>
     set (map fst res) = set (map fst orca) \<union> set (mode_indices ls) \<and>
     (distinct (map fst orca) \<longrightarrow> distinct (map fst res))"
proof (induction ls arbitrary: orca)
  case Nil
  then show ?case by (simp add: mode_indices_def matched_Nil)
next
  case (Cons l ls)
  show ?case
  proof (cases "pat l")
    case None
    with Cons show ?thesis by (simp add: mode_indices_def matched_Cons)
  next
    case (Some g)
    obtain g1 g2 g3 where g: "g = (g1, g2, g3)" by (cases g)
    from Cons.prems Some g obtain f i where
      fi: "py_int g1 = Some (digits_value g1)" "py_float g2 = Some f" "py_float g3 = Some i"
      and rest: "collect (AList.update (digits_value g1) \<lparr>freq = f, ir = i\<rparr> orca) ls = Inr res"
      by (auto simp: py_int_def split: option.splits if_splits)
    from Cons.IH [OF rest] Some g show ?thesis
      by (auto simp: mode_indices_def matched_Cons update_keys distinct_update)
  qed
qed


lemma parse_orca_ir_keys:
  assumes "snd (parse_orca_ir lines) = Inr orca"
  shows "set (map fst orca) = set (mode_indices (bounded_window lines))"
    and "distinct (map fst orca)"
    and "length orca \<le> length (matched (bounded_window lines))"
proof -
  have lab: "has_label lines"
    using assms find_start_None [of lines] by (auto simp: parse_orca_ir_def)
  from assms have c: "collect [] (bounded_window lines) = Inr orca"
    by (auto simp: parse_orca_ir_window [OF lab] split: sum.splits if_splits)
  from collect_keys [OF c] show k: "set (map fst orca) = set (mode_indices (bounded_window lines))"
    and d: "distinct (map fst orca)" by simp_all
  have "length orca = card (set (map fst orca))"
    using d distinct_card [of "map fst orca"] by simp
  also have "\<dots> \<le> length (mode_indices (bounded_window lines))"
    unfolding k by (rule card_length)
  finally show "length orca \<le> length (matched (bounded_window lines))"
    by (simp add: mode_indices_def)
qed





section \<open>Properties of the merger\<close>

lemma find_match_None: "find_match rem f = None \<longleftrightarrow> (\<forall>(k, v) \<in> set rem. \<not> within_tol v f)"
  by (induction rem f rule: find_match.induct) auto

lemma find_match_Some:
  "find_match rem f = Some k \<longleftrightarrow>
     (\<exists>a v b. rem = a @ (k, v) # b \<and> within_tol v f \<and> (\<forall>(k', v') \<in> set a. \<not> within_tol v' f))"
proof (induction rem f rule: find_match.induct)
  case (1 f)
  then show ?case by simp
next
  case (2 o_idx v_data rest f)
  show ?case
  proof (cases "within_tol v_data f")
    case True
    have "(\<exists>a v b. (o_idx, v_data) # rest = a @ (k, v) # b \<and> within_tol v f \<and>
             (\<forall>(k', v') \<in> set a. \<not> within_tol v' f)) \<longleftrightarrow> o_idx = k"
    proof
      assume "\<exists>a v b. (o_idx, v_data) # rest = a @ (k, v) # b \<and> within_tol v f \<and>
             (\<forall>(k', v') \<in> set a. \<not> within_tol v' f)"
      then obtain a v b where *: "(o_idx, v_data) # rest = a @ (k, v) # b"
        "\<forall>(k', v') \<in> set a. \<not> within_tol v' f" by blast
      show "o_idx = k"
      proof (cases a)
        case Nil
        with * show ?thesis by simp
      next
        case (Cons p a')
        with * True show ?thesis by auto
      qed
    next
      assume "o_idx = k"
      with True show "\<exists>a v b. (o_idx, v_data) # rest = a @ (k, v) # b \<and> within_tol v f \<and>
             (\<forall>(k', v') \<in> set a. \<not> within_tol v' f)"
        by (intro exI [of _ "[]"] exI [of _ v_data] exI [of _ rest]) simp
    qed
    with True show ?thesis by auto
  next
    case False
    then have fm: "find_match ((o_idx, v_data) # rest) f = find_match rest f"
      by simp
    have "(\<exists>a v b. (o_idx, v_data) # rest = a @ (k, v) # b \<and> within_tol v f \<and>
             (\<forall>(k', v') \<in> set a. \<not> within_tol v' f)) \<longleftrightarrow>
          (\<exists>a v b. rest = a @ (k, v) # b \<and> within_tol v f \<and>
             (\<forall>(k', v') \<in> set a. \<not> within_tol v' f))" (is "?L \<longleftrightarrow> ?R")
    proof
      assume ?L
      then obtain a v b where *: "(o_idx, v_data) # rest = a @ (k, v) # b" "within_tol v f"
        "\<forall>(k', v') \<in> set a. \<not> within_tol v' f" by blast
      show ?R
      proof (cases a)
        case Nil
        with * False show ?thesis by simp
      next
        case (Cons p a')
        with * show ?thesis by auto
      qed
    next
      assume ?R
      then obtain a v b where *: "rest = a @ (k, v) # b" "within_tol v f"
        "\<forall>(k', v') \<in> set a. \<not> within_tol v' f" by blast
      with False show ?L
        by (intro exI [of _ "(o_idx, v_data) # a"] exI [of _ v] exI [of _ b]) simp
    qed
    with fm 2 False show ?thesis by simp
  qed
qed

lemma map_of_distinct_mid:
  "distinct (map fst (a @ (k, v) # b)) \<Longrightarrow> map_of (a @ (k, v) # b) k = Some v"
  by (induction a) auto

lemma delete_distinct_mid:
  "distinct (map fst (a @ (k, v) # b)) \<Longrightarrow> AList.delete k (a @ (k, v) # b) = a @ b"
proof -
  assume d: "distinct (map fst (a @ (k, v) # b))"
  then have "k \<notin> fst ` set a" "k \<notin> fst ` set b" by auto
  then have "AList.delete k a = a" "AList.delete k b = b"
    by (simp_all add: delete_id)
  then show ?thesis by (simp add: AList.delete_eq)
qed


lemma find_match_key: "find_match rem f = Some k \<Longrightarrow> map_of rem k \<noteq> None"
  by (induction rem f rule: find_match.induct) (auto split: if_splits)

lemma merge_line_cases:
  assumes "merge_line st l = Inr st'"
  shows "st' = st\<lparr>out := out st @ [l]\<rparr> \<or>
         (\<exists>g1 g2 g3 vm f k v. pat_mode l = Some (g1, g2, g3) \<and> py_int g1 = Some vm \<and>
            py_float g2 = Some f \<and>
            find_match (remaining st) f = Some k \<and> map_of (remaining st) k = Some v \<and>
            st' = \<lparr>out = out st @ [new_ln vm f (ir v)],
                   replacements_made = replacements_made st + 1,
                   remaining = AList.delete k (remaining st)\<rparr>)"
  using assms by (auto simp: merge_line_def split: option.splits)

lemma merge_line_total:
  assumes "case pat_mode l of
             None \<Rightarrow> True
           | Some (g1, g2, g3) \<Rightarrow> py_int g1 \<noteq> None \<and> py_float g2 \<noteq> None"
  shows "\<exists>st'. merge_line st l = Inr st'"
  using assms
  by (auto simp: merge_line_def split: option.splits dest!: find_match_key)

lemma merge_lines_total:
  "header_numbers_ok lines \<Longrightarrow> \<exists>st'. merge_lines st lines = Inr st'"
proof (induction lines arbitrary: st)
  case Nil
  then show ?case by simp
next
  case (Cons l ls)
  from Cons.prems have "case pat_mode l of
             None \<Rightarrow> True
           | Some (g1, g2, g3) \<Rightarrow> py_int g1 \<noteq> None \<and> py_float g2 \<noteq> None"
    and ok: "header_numbers_ok ls"
    by (simp_all add: header_numbers_ok_def)
  from merge_line_total [OF this(1)] obtain st1 where "merge_line st l = Inr st1" by blast
  with Cons.IH [OF ok, of st1] show ?case by simp
qed

lemma merge_line_out:
  "merge_line st l = Inr st' \<Longrightarrow> \<exists>x. out st' = out st @ [x]"
  by (drule merge_line_cases) auto

lemma merge_line_remaining:
  "merge_line st l = Inr st' \<Longrightarrow> set (remaining st') \<subseteq> set (remaining st)"
  by (drule merge_line_cases) (auto simp: AList.delete_eq)

lemma merge_line_distinct:
  "merge_line st l = Inr st' \<Longrightarrow> distinct (map fst (remaining st)) \<Longrightarrow>
     distinct (map fst (remaining st'))"
  by (drule merge_line_cases) (auto simp: distinct_delete)

lemma merge_lines_out:
  "merge_lines st ls = Inr st' \<Longrightarrow>
     \<exists>xs. out st' = out st @ xs \<and> length xs = length ls"
proof (induction ls arbitrary: st)
  case Nil
  then show ?case by simp
next
  case (Cons l ls)
  from Cons.prems obtain st1 where s1: "merge_line st l = Inr st1"
    and r: "merge_lines st1 ls = Inr st'"
    by (auto split: sum.splits)
  from merge_line_out [OF s1] obtain x where x: "out st1 = out st @ [x]" by blast
  from Cons.IH [OF r] obtain xs where "out st' = out st1 @ xs" "length xs = length ls" by blast
  with x show ?case by (intro exI [of _ "x # xs"]) simp
qed

lemma merge_lines_remaining:
  "merge_lines st ls = Inr st' \<Longrightarrow> set (remaining st') \<subseteq> set (remaining st)"
proof (induction ls arbitrary: st)
  case Nil
  then show ?case by simp
next
  case (Cons l ls)
  from Cons.prems obtain st1 where s1: "merge_line st l = Inr st1"
    and r: "merge_lines st1 ls = Inr st'"
    by (auto split: sum.splits)
  from merge_line_remaining [OF s1] Cons.IH [OF r] show ?case by blast
qed

lemma merge_lines_distinct:
  "merge_lines st ls = Inr st' \<Longrightarrow> distinct (map fst (remaining st)) \<Longrightarrow>
     distinct (map fst (remaining st'))"
proof (induction ls arbitrary: st)
  case Nil
  then show ?case by simp
next
  case (Cons l ls)
  from Cons.prems obtain st1 where s1: "merge_line st l = Inr st1"
    and r: "merge_lines st1 ls = Inr st'"
    by (auto split: sum.splits)
  from merge_line_distinct [OF s1 Cons.prems(2)] Cons.IH [OF r] show ?case by blast
qed

lemma merge_lines_append:
  "merge_lines st (xs @ ys) =
     (case merge_lines st xs of Inl e \<Rightarrow> Inl e | Inr st1 \<Rightarrow> merge_lines st1 ys)"
  by (induction xs arbitrary: st) (auto split: sum.splits)

lemma find_match_within:
  "find_match rem f = Some k \<Longrightarrow> \<exists>v. (k, v) \<in> set rem \<and> within_tol v f"
  by (auto simp: find_match_Some)

text \<open>The line at each position: unchanged, or a header line with a record within tolerance.\<close>

lemma merge_lines_frame:
  "merge_lines st ls = Inr st' \<Longrightarrow> i < length ls \<Longrightarrow>
     out st' ! (length (out st) + i) = ls ! i \<or>
     (\<exists>g1 g2 g3 f. pat_mode (ls ! i) = Some (g1, g2, g3) \<and> py_float g2 = Some f \<and>
        (\<exists>(k, v) \<in> set (remaining st). within_tol v f))"
proof (induction ls arbitrary: st i)
  case Nil
  then show ?case by simp
next
  case (Cons l ls)
  from Cons.prems obtain st1 where s1: "merge_line st l = Inr st1"
    and r: "merge_lines st1 ls = Inr st'"
    by (auto split: sum.splits)
  from merge_line_out [OF s1] obtain x where x: "out st1 = out st @ [x]" by blast
  from merge_lines_out [OF r] obtain xs where xs: "out st' = out st1 @ xs" by blast
  show ?case
  proof (cases i)
    case 0
    have at: "out st' ! (length (out st) + i) = x"
      using x xs 0 by (simp add: nth_append)
    from merge_line_cases [OF s1] show ?thesis
    proof (elim disjE conjE exE)
      assume "st1 = st\<lparr>out := out st @ [l]\<rparr>"
      with x have "x = l" by simp
      with at 0 show ?thesis by simp
    next
      fix g1 g2 g3 f k v
      assume "pat_mode l = Some (g1, g2, g3)" "py_float g2 = Some f"
        "find_match (remaining st) f = Some k"
      with find_match_within [of "remaining st" f k] 0 show ?thesis by auto
    qed
  next
    case (Suc j)
    with Cons.prems have j: "j < length ls" by simp
    have idx: "length (out st1) + j = length (out st) + i"
      using x Suc by simp
    from Cons.IH [OF r j] idx Suc
    have "out st' ! (length (out st) + i) = (l # ls) ! i \<or>
          (\<exists>g1 g2 g3 f. pat_mode ((l # ls) ! i) = Some (g1, g2, g3) \<and> py_float g2 = Some f \<and>
             (\<exists>(k, v) \<in> set (remaining st1). within_tol v f))"
      by simp
    with merge_line_remaining [OF s1] show ?thesis
      by blast
  qed
qed

lemma merge_lines_passthrough:
  "merge_lines st ls = Inr st' \<Longrightarrow> i < length ls \<Longrightarrow> pat_mode (ls ! i) = None \<Longrightarrow>
     out st' ! (length (out st) + i) = ls ! i"
  using merge_lines_frame [of st ls st' i] by auto

text \<open>
  C9. Whenever the merger writes its output, the lines written are as many as the lines
  read and stand in the same order: a line that does not match the mode pattern stands
  unchanged at its position, and a position where output and input differ holds a header
  line whose frequency is within the tolerance of a record of the spectrum. The merger
  does write when \<^verbatim>\<open>int()\<close> accepts the mode number and \<^verbatim>\<open>float()\<close> the frequency
  field of every header line (otherwise it raises before it writes anything).
\<close>

theorem replace_vmard_ir_frame:
  "(header_numbers_ok lines \<longrightarrow> (\<exists>ws res. replace_vmard_ir lines orca = Inr (ws, res))) \<and>
   (\<forall>ws res. replace_vmard_ir lines orca = Inr (ws, res) \<longrightarrow>
      length res = length lines \<and>
      (\<forall>i < length lines. pat_mode (lines ! i) = None \<longrightarrow> res ! i = lines ! i) \<and>
      (\<forall>i < length lines. res ! i \<noteq> lines ! i \<longrightarrow>
         (\<exists>g1 g2 g3 f. pat_mode (lines ! i) = Some (g1, g2, g3) \<and> py_float g2 = Some f \<and>
            (\<exists>(k, v) \<in> set orca. within_tol v f))))"
proof (intro conjI allI impI)
  let ?st0 = "\<lparr>out = [], replacements_made = 0, remaining = orca\<rparr>"
  {
    assume "header_numbers_ok lines"
    from merge_lines_total [OF this, of ?st0]
    show "\<exists>ws res. replace_vmard_ir lines orca = Inr (ws, res)"
      by (auto simp: replace_vmard_ir_def)
  }
  fix ws res
  assume "replace_vmard_ir lines orca = Inr (ws, res)"
  then obtain st' where m: "merge_lines ?st0 lines = Inr st'" and res: "res = out st'"
    by (auto simp: replace_vmard_ir_def split: sum.splits)
  from merge_lines_out [OF m] res show "length res = length lines" by auto
  {
    fix i
    assume "i < length lines" "pat_mode (lines ! i) = None"
    from merge_lines_passthrough [OF m this] res show "res ! i = lines ! i" by simp
  }
  {
    fix i
    assume "i < length lines" "res ! i \<noteq> lines ! i"
    with merge_lines_frame [OF m, of i] res
    show "\<exists>g1 g2 g3 f. pat_mode (lines ! i) = Some (g1, g2, g3) \<and> py_float g2 = Some f \<and>
            (\<exists>(k, v) \<in> set orca. within_tol v f)"
      by auto
  }
qed


lemma find_match_first:
  assumes d: "distinct (map fst rem)" and i: "i < length rem" and at: "rem ! i = (k, v)"
    and w: "within_tol v f" and before: "\<forall>m < i. \<not> within_tol (snd (rem ! m)) f"
  shows "find_match rem f = Some k" and "map_of rem k = Some v"
    and "AList.delete k rem = take i rem @ drop (Suc i) rem"
proof -
  have rem: "rem = take i rem @ (k, v) # drop (Suc i) rem"
    using i at id_take_nth_drop [of i rem] by simp
  have "\<forall>(k', v') \<in> set (take i rem). \<not> within_tol v' f"
  proof (clarify)
    fix k' v'
    assume "(k', v') \<in> set (take i rem)" "within_tol v' f"
    then obtain m where "m < length (take i rem)" "take i rem ! m = (k', v')"
      by (auto simp: in_set_conv_nth)
    with before i have "\<not> within_tol v' f" by (auto simp: nth_take)
    with \<open>within_tol v' f\<close> show False by simp
  qed
  with w rem show "find_match rem f = Some k"
    unfolding find_match_Some by blast
  from d rem map_of_distinct_mid [of "take i rem" k v "drop (Suc i) rem"]
  show "map_of rem k = Some v" by simp
  from d rem delete_distinct_mid [of "take i rem" k v "drop (Suc i) rem"]
  show "AList.delete k rem = take i rem @ drop (Suc i) rem" by simp
qed

lemma merge_line_replace:
  assumes "pat_mode h = Some (g1, g2, g3)" "py_int g1 = Some vm" "py_float g2 = Some f"
    "find_match (remaining st) f = Some k" "map_of (remaining st) k = Some v"
  shows "merge_line st h = Inr \<lparr>out = out st @ [new_ln vm f (ir v)],
           replacements_made = replacements_made st + 1,
           remaining = AList.delete k (remaining st)\<rparr>"
  using assms by (simp add: merge_line_def)

lemma merge_line_keep:
  assumes "pat_mode h = Some (g1, g2, g3)" "py_int g1 = Some vm" "py_float g2 = Some f"
    "find_match (remaining st) f = None"
  shows "merge_line st h = Inr (st\<lparr>out := out st @ [h]\<rparr>)"
  using assms by (simp add: merge_line_def)

text \<open>
  C1. A record of the spectrum is consumed at most once, and the scan takes the first
  record within the tolerance. First part: from any state of the loop whose remaining
  records hold exactly one record \<open>(k, v)\<close> within the tolerance of two header lines \<open>h1\<close>
  and \<open>h2\<close>, running \<open>h1\<close>, any lines \<open>mid\<close> and then \<open>h2\<close> rewrites \<open>h1\<close> with the
  intensity of \<open>v\<close>, removes \<open>k\<close> for good and emits \<open>h2\<close> unchanged. Second part: when
  the records at positions \<open>i < j\<close> of the remaining records are both within the tolerance
  of a header line and none before \<open>i\<close> is, the line is rewritten with the intensity of
  the record at \<open>i\<close>, which is removed; the record at \<open>j\<close> remains.
\<close>

theorem merger_consumes_once:
  "(distinct (map fst (remaining st)) \<and>
    pat_mode h1 = Some (a1, a2, a3) \<and> py_int a1 = Some n1 \<and> py_float a2 = Some f1 \<and>
    pat_mode h2 = Some (b1, b2, b3) \<and> py_int b1 = Some n2 \<and> py_float b2 = Some f2 \<and>
    (k, v) \<in> set (remaining st) \<and> within_tol v f1 \<and> within_tol v f2 \<and>
    (\<forall>(k', v') \<in> set (remaining st). k' \<noteq> k \<longrightarrow> \<not> within_tol v' f1 \<and> \<not> within_tol v' f2) \<and>
    merge_lines st (h1 # mid) = Inr st1
    \<longrightarrow> out st1 ! length (out st) = new_ln n1 f1 (ir v) \<and>
        k \<notin> fst ` set (remaining st1) \<and>
        merge_line st1 h2 = Inr (st1\<lparr>out := out st1 @ [h2]\<rparr>) \<and>
        merge_lines st (h1 # mid @ [h2]) = Inr (st1\<lparr>out := out st1 @ [h2]\<rparr>)) \<and>
   (distinct (map fst (remaining st)) \<and>
    pat_mode h = Some (g1, g2, g3) \<and> py_int g1 = Some n \<and> py_float g2 = Some f \<and>
    i < j \<and> j < length (remaining st) \<and>
    remaining st ! i = (k1, v1) \<and> remaining st ! j = (k2, v2) \<and>
    within_tol v1 f \<and> within_tol v2 f \<and>
    (\<forall>m < i. \<not> within_tol (snd (remaining st ! m)) f)
    \<longrightarrow> merge_line st h = Inr \<lparr>out = out st @ [new_ln n f (ir v1)],
                               replacements_made = replacements_made st + 1,
                               remaining = AList.delete k1 (remaining st)\<rparr> \<and>
        k1 \<notin> fst ` set (AList.delete k1 (remaining st)) \<and>
        (k2, v2) \<in> set (AList.delete k1 (remaining st)))"
proof (intro conjI impI; (elim conjE)?)
  assume d: "distinct (map fst (remaining st))"
    and p1: "pat_mode h1 = Some (a1, a2, a3)" "py_int a1 = Some n1" "py_float a2 = Some f1"
    and p2: "pat_mode h2 = Some (b1, b2, b3)" "py_int b1 = Some n2" "py_float b2 = Some f2"
    and kv: "(k, v) \<in> set (remaining st)" and w: "within_tol v f1" "within_tol v f2"
    and only: "\<forall>(k', v') \<in> set (remaining st). k' \<noteq> k \<longrightarrow> \<not> within_tol v' f1 \<and> \<not> within_tol v' f2"
    and m: "merge_lines st (h1 # mid) = Inr st1"
  from kv obtain i where i: "i < length (remaining st)" "remaining st ! i = (k, v)"
    by (auto simp: in_set_conv_nth)
  have before: "\<forall>m < i. \<not> within_tol (snd (remaining st ! m)) f1"
  proof (intro allI impI)
    fix m assume mi: "m < i"
    obtain k' v' where m': "remaining st ! m = (k', v')" by (cases "remaining st ! m")
    have "(map fst (remaining st) ! m = map fst (remaining st) ! i) = (m = i)"
      by (rule nth_eq_iff_index_eq [OF d]) (use mi i(1) in simp_all)
    then have "k' \<noteq> k" using m' i mi by simp
    moreover have "(k', v') \<in> set (remaining st)"
      using m' mi i(1) by (metis nth_mem order.strict_trans)
    ultimately show "\<not> within_tol (snd (remaining st ! m)) f1"
      using only m' by auto
  qed
  from find_match_first [OF d i w(1) before]
  have fm: "find_match (remaining st) f1 = Some k" "map_of (remaining st) k = Some v" by simp_all
  let ?sa = "\<lparr>out = out st @ [new_ln n1 f1 (ir v)],
              replacements_made = replacements_made st + 1,
              remaining = AList.delete k (remaining st)\<rparr>"
  have sa: "merge_line st h1 = Inr ?sa"
    by (rule merge_line_replace [OF p1 fm])
  with m have rest: "merge_lines ?sa mid = Inr st1" by simp
  from merge_lines_out [OF rest] obtain xs where xs: "out st1 = out ?sa @ xs" by blast
  then show "out st1 ! length (out st) = new_ln n1 f1 (ir v)"
    by (simp add: nth_append)
  have sub: "set (remaining st1) \<subseteq> set (AList.delete k (remaining st))"
    using merge_lines_remaining [OF rest] by simp
  then show nk: "k \<notin> fst ` set (remaining st1)"
    using delete_notin_dom [of k "remaining st"] by blast
  have "\<forall>(k', v') \<in> set (remaining st1). \<not> within_tol v' f2"
    using sub only by (auto simp: AList.delete_eq)
  then have "find_match (remaining st1) f2 = None"
    by (simp add: find_match_None)
  from merge_line_keep [OF p2 this]
  show keep: "merge_line st1 h2 = Inr (st1\<lparr>out := out st1 @ [h2]\<rparr>)" .
  have "merge_lines st ((h1 # mid) @ [h2]) = Inr (st1\<lparr>out := out st1 @ [h2]\<rparr>)"
    unfolding merge_lines_append using m keep by simp
  then show "merge_lines st (h1 # mid @ [h2]) = Inr (st1\<lparr>out := out st1 @ [h2]\<rparr>)" by simp
next
  assume d: "distinct (map fst (remaining st))"
    and p: "pat_mode h = Some (g1, g2, g3)" "py_int g1 = Some n" "py_float g2 = Some f"
    and ij: "i < j" "j < length (remaining st)"
    and at: "remaining st ! i = (k1, v1)" "remaining st ! j = (k2, v2)"
    and w: "within_tol v1 f" "within_tol v2 f"
    and before: "\<forall>m < i. \<not> within_tol (snd (remaining st ! m)) f"
  from ij have i: "i < length (remaining st)" by simp
  from find_match_first [OF d i at(1) w(1) before]
  have fm: "find_match (remaining st) f = Some k1" "map_of (remaining st) k1 = Some v1" by simp_all
  show "merge_line st h = Inr \<lparr>out = out st @ [new_ln n f (ir v1)],
                               replacements_made = replacements_made st + 1,
                               remaining = AList.delete k1 (remaining st)\<rparr>"
    by (rule merge_line_replace [OF p fm])
  show "k1 \<notin> fst ` set (AList.delete k1 (remaining st))"
    by (rule delete_notin_dom)
  have "(map fst (remaining st) ! i = map fst (remaining st) ! j) = (i = j)"
    by (rule nth_eq_iff_index_eq [OF d]) (use ij in simp_all)
  then have "k1 \<noteq> k2" using at ij by simp
  moreover have "(k2, v2) \<in> set (remaining st)"
    using at(2) ij(2) by (metis nth_mem)
  ultimately show "(k2, v2) \<in> set (AList.delete k1 (remaining st))"
    by (auto simp: AList.delete_eq)
qed




theorem replace_vmard_ir_frame_witness:
  "header_numbers_ok demo_report \<and>
   replace_vmard_ir demo_report demo_orca =
     Inr ([Unmatched 1 [Fin 200]],
          [''Title line'', ''Mode 1:  100.00 cm-1 (IR: 12.34)'', ''+0.50 (50.0%) BOND C1 H2'',
           ''Mode 2:  100.03 cm-1 (IR: 0.00)'']) \<and>
   pat_mode (demo_report ! 0) = None \<and>
   [''Title line'', ''Mode 1:  100.00 cm-1 (IR: 12.34)'', ''+0.50 (50.0%) BOND C1 H2'',
    ''Mode 2:  100.03 cm-1 (IR: 0.00)''] ! 0 = demo_report ! 0 \<and>
   [''Title line'', ''Mode 1:  100.00 cm-1 (IR: 12.34)'', ''+0.50 (50.0%) BOND C1 H2'',
    ''Mode 2:  100.03 cm-1 (IR: 0.00)''] ! 1 \<noteq> demo_report ! 1 \<and>
   (\<exists>g1 g2 g3 f. pat_mode (demo_report ! 1) = Some (g1, g2, g3) \<and> py_float g2 = Some f \<and>
      (\<exists>(k, v) \<in> set demo_orca. within_tol v f))"
proof -
  let ?res = "[''Title line'', ''Mode 1:  100.00 cm-1 (IR: 12.34)'', ''+0.50 (50.0%) BOND C1 H2'',
    ''Mode 2:  100.03 cm-1 (IR: 0.00)'']"
  have ok: "header_numbers_ok demo_report" by code_simp
  have run: "replace_vmard_ir demo_report demo_orca = Inr ([Unmatched 1 [Fin 200]], ?res)"
    by code_simp
  have len: "0 < length demo_report" "1 < length demo_report" by code_simp+
  have none: "pat_mode (demo_report ! 0) = None" by code_simp
  have diff: "?res ! 1 \<noteq> demo_report ! 1" by code_simp
  note fr = replace_vmard_ir_frame [of demo_report demo_orca]
  from fr run len(1) none have "?res ! 0 = demo_report ! 0" by blast
  moreover from fr run len(2) diff
  have "\<exists>g1 g2 g3 f. pat_mode (demo_report ! 1) = Some (g1, g2, g3) \<and> py_float g2 = Some f \<and>
      (\<exists>(k, v) \<in> set demo_orca. within_tol v f)" by blast
  ultimately show ?thesis using ok run none diff by blast
qed

theorem merger_consumes_once_witness:
  "merge_lines \<lparr>out = [], replacements_made = 0, remaining = demo_orca\<rparr>
     [''Mode 1:  100.00 cm-1 (IR: 0.00)'', ''+0.50 (50.0%) BOND C1 H2'',
      ''Mode 2:  100.03 cm-1 (IR: 0.00)'']
   = Inr \<lparr>out = [''Mode 1:  100.00 cm-1 (IR: 12.34)'', ''+0.50 (50.0%) BOND C1 H2'',
                 ''Mode 2:  100.03 cm-1 (IR: 0.00)''],
           replacements_made = 1, remaining = [(7, \<lparr>freq = Fin 200, ir = Fin 1\<rparr>)]\<rparr> \<and>
   merge_line \<lparr>out = [], replacements_made = 0, remaining = demo_orca2\<rparr>
     ''Mode 1:  100.00 cm-1 (IR: 0.00)''
   = Inr \<lparr>out = [''Mode 1:  100.00 cm-1 (IR: 3.00)''], replacements_made = 1,
           remaining = [(6, \<lparr>freq = to_double (10001 / 100), ir = to_double (617 / 50)\<rparr>)]\<rparr>"
proof -
  let ?h1 = "''Mode 1:  100.00 cm-1 (IR: 0.00)''"
  let ?c = "''+0.50 (50.0%) BOND C1 H2''"
  let ?h2 = "''Mode 2:  100.03 cm-1 (IR: 0.00)''"
  let ?st = "\<lparr>out = [], replacements_made = 0, remaining = demo_orca\<rparr>"
  let ?st1 = "\<lparr>out = [''Mode 1:  100.00 cm-1 (IR: 12.34)'', ?c], replacements_made = 1,
               remaining = [(7, \<lparr>freq = Fin 200, ir = Fin 1\<rparr>)]\<rparr>"
  let ?v = "\<lparr>freq = to_double (10001 / 100), ir = to_double (617 / 50)\<rparr>"
  let ?sb = "\<lparr>out = [], replacements_made = 0, remaining = demo_orca2\<rparr>"
  let ?v1 = "\<lparr>freq = to_double (10005 / 100), ir = Fin 3\<rparr>"
  let ?f2 = "to_double (10003 / 100)"
  have a: "distinct (map fst (remaining ?st)) \<and>
    pat_mode ?h1 = Some (''1'', ''100.00'', ''0.00'') \<and> py_int ''1'' = Some 1 \<and>
    py_float ''100.00'' = Some (Fin 100) \<and>
    pat_mode ?h2 = Some (''2'', ''100.03'', ''0.00'') \<and> py_int ''2'' = Some 2 \<and>
    py_float ''100.03'' = Some ?f2 \<and>
    (6, ?v) \<in> set (remaining ?st) \<and> within_tol ?v (Fin 100) \<and> within_tol ?v ?f2 \<and>
    (\<forall>(k', v') \<in> set (remaining ?st). k' \<noteq> 6 \<longrightarrow>
        \<not> within_tol v' (Fin 100) \<and> \<not> within_tol v' ?f2) \<and>
    merge_lines ?st (?h1 # [?c]) = Inr ?st1"
    by code_simp
  have b: "distinct (map fst (remaining ?sb)) \<and>
    pat_mode ?h1 = Some (''1'', ''100.00'', ''0.00'') \<and> py_int ''1'' = Some 1 \<and>
    py_float ''100.00'' = Some (Fin 100) \<and>
    (0::nat) < 1 \<and> 1 < length (remaining ?sb) \<and>
    remaining ?sb ! 0 = (5, ?v1) \<and> remaining ?sb ! 1 = (6, ?v) \<and>
    within_tol ?v1 (Fin 100) \<and> within_tol ?v (Fin 100) \<and>
    (\<forall>m < 0. \<not> within_tol (snd (remaining ?sb ! m)) (Fin 100))"
    by code_simp
  note inst1 = merger_consumes_once [where st = ?st and ?h1.0 = ?h1 and ?h2.0 = ?h2
      and mid = "[?c]" and ?a1.0 = "''1''" and ?a2.0 = "''100.00''" and ?a3.0 = "''0.00''"
      and ?n1.0 = 1 and ?f1.0 = "Fin 100" and ?b1.0 = "''2''" and ?b2.0 = "''100.03''"
      and ?b3.0 = "''0.00''" and ?n2.0 = 2 and ?f2.0 = ?f2 and k = 6 and v = ?v
      and ?st1.0 = ?st1]
  from inst1 a have "merge_lines ?st (?h1 # [?c] @ [?h2]) = Inr (?st1\<lparr>out := out ?st1 @ [?h2]\<rparr>)"
    by blast
  then have 1: "merge_lines ?st [?h1, ?c, ?h2] =
      Inr \<lparr>out = [''Mode 1:  100.00 cm-1 (IR: 12.34)'', ?c, ?h2],
           replacements_made = 1, remaining = [(7, \<lparr>freq = Fin 200, ir = Fin 1\<rparr>)]\<rparr>"
    by simp
  note inst2 = merger_consumes_once [where st = ?sb and h = ?h1 and ?g1.0 = "''1''"
      and ?g2.0 = "''100.00''" and ?g3.0 = "''0.00''" and n = 1 and f = "Fin 100" and i = 0
      and j = 1 and ?k1.0 = 5 and ?v1.0 = ?v1 and ?k2.0 = 6 and ?v2.0 = ?v]
  from inst2 b have "merge_line ?sb ?h1 =
      Inr \<lparr>out = out ?sb @ [new_ln 1 (Fin 100) (ir ?v1)],
           replacements_made = replacements_made ?sb + 1,
           remaining = AList.delete 5 (remaining ?sb)\<rparr>"
    by blast
  moreover have "new_ln 1 (Fin 100) (ir ?v1) = ''Mode 1:  100.00 cm-1 (IR: 3.00)''"
    by code_simp
  moreover have "AList.delete 5 (remaining ?sb) = [(6, ?v)]" by code_simp
  ultimately have 2: "merge_line ?sb ?h1 =
      Inr \<lparr>out = [''Mode 1:  100.00 cm-1 (IR: 3.00)''], replacements_made = 1,
           remaining = [(6, ?v)]\<rparr>"
    by simp
  from 1 2 show ?thesis by simp
qed

section \<open>Lines with a negative frequency\<close>

lemma minus_not_digdot: "startswith a ''-'' \<Longrightarrow> plus1 is_digdot a = None"
  by (cases a) (auto simp: plus1_def is_digdot_def is_digit_def)

lemma minus_spectrum_no_match: "minus_freq_spectrum_line l \<Longrightarrow> pat l = None"
  by (auto simp: minus_freq_spectrum_line_def pat_def minus_not_digdot star_def
      split: option.splits Option.bind_splits prod.splits)

lemma minus_header_no_match: "minus_freq_header_line l \<Longrightarrow> pat_mode l = None"
  by (auto simp: minus_freq_header_line_def pat_mode_def minus_not_digdot star_def
      split: option.splits Option.bind_splits prod.splits)

lemma collect_append:
  "collect orca (xs @ ys) =
     (case collect orca xs of Inl e \<Rightarrow> Inl e | Inr orca' \<Rightarrow> collect orca' ys)"
  by (induction xs arbitrary: orca) (auto split: option.splits)

text \<open>
  C10. A line whose frequency field starts with a minus sign matches neither pattern. In
  the extractor's loop such a line adds no record: the loop goes on with the dictionary it
  had, and the run over the window is the run over the window without the line. In the
  merger's loop such a line is appended to the output as it is; the count of replacements
  and the remaining records stay as they were. Neither loop body prints anything: the
  warnings of both functions are computed outside the loops.
\<close>

theorem minus_frequency_lines_skipped:
  "(minus_freq_spectrum_line l \<longrightarrow>
      pat l = None \<and> collect orca (l # post) = collect orca post \<and>
      collect orca (pre @ l # post) = collect orca (pre @ post)) \<and>
   (minus_freq_header_line l \<longrightarrow>
      pat_mode l = None \<and> merge_line st l = Inr (st\<lparr>out := out st @ [l]\<rparr>))"
proof (intro conjI impI)
  assume m: "minus_freq_spectrum_line l"
  show p: "pat l = None" by (rule minus_spectrum_no_match [OF m])
  then show "collect orca (l # post) = collect orca post" by simp
  from p show "collect orca (pre @ l # post) = collect orca (pre @ post)"
    by (simp add: collect_append split: sum.splits)
next
  assume m: "minus_freq_header_line l"
  show p: "pat_mode l = None" by (rule minus_header_no_match [OF m])
  then show "merge_line st l = Inr (st\<lparr>out := out st @ [l]\<rparr>)"
    by (simp add: merge_line_def)
qed


theorem minus_frequency_lines_skipped_witness:
  "minus_freq_spectrum_line ''   6:    -50.23 cm**-1   12.34'' \<and>
   pat ''   6:    -50.23 cm**-1   12.34'' = None \<and>
   collect [] [''   7:    150.00 cm**-1   2.5'', ''   6:    -50.23 cm**-1   12.34'']
     = Inr [(7, \<lparr>freq = Fin 150, ir = Fin (5 / 2)\<rparr>)] \<and>
   minus_freq_header_line ''Mode 1:  -50.23 cm-1 (IR: 0.00)'' \<and>
   pat_mode ''Mode 1:  -50.23 cm-1 (IR: 0.00)'' = None \<and>
   merge_line \<lparr>out = [], replacements_made = 0, remaining = demo_orca\<rparr>
       ''Mode 1:  -50.23 cm-1 (IR: 0.00)''
     = Inr \<lparr>out = [''Mode 1:  -50.23 cm-1 (IR: 0.00)''], replacements_made = 0,
             remaining = demo_orca\<rparr>"
proof -
  let ?s = "''   6:    -50.23 cm**-1   12.34''"
  let ?h = "''Mode 1:  -50.23 cm-1 (IR: 0.00)''"
  let ?st = "\<lparr>out = [], replacements_made = 0, remaining = demo_orca\<rparr>"
  have a: "minus_freq_spectrum_line ?s" by code_simp
  have b: "minus_freq_header_line ?h" by code_simp
  have c: "collect [] ([''   7:    150.00 cm**-1   2.5''] @ []) = Inr [(7, \<lparr>freq = Fin 150, ir = Fin (5 / 2)\<rparr>)]"
    by code_simp
  note i1 = minus_frequency_lines_skipped [where l = ?s and orca = "[]" and post = "[]"
      and pre = "[''   7:    150.00 cm**-1   2.5'']"]
  note i2 = minus_frequency_lines_skipped [where l = ?h and st = ?st]
  from i1 a have "pat ?s = None"
    and "collect [] ([''   7:    150.00 cm**-1   2.5''] @ ?s # []) =
          collect [] ([''   7:    150.00 cm**-1   2.5''] @ [])"
    by blast+
  moreover from i2 b have "pat_mode ?h = None"
    and "merge_line ?st ?h = Inr (?st\<lparr>out := out ?st @ [?h]\<rparr>)"
    by blast+
  ultimately show ?thesis using a b c by simp
qed


end
